theory Spec2Isabelle
  imports Complex_Main
begin

section \<open>JavaScript strings and numbers\<close>

text \<open>
  A JavaScript string is a sequence of UTF-16 code units; it is modelled as the list of
  their values. Every glyph the converters use lies in the Basic Multilingual Plane, so
  each is one code unit and the regular expressions of the source (which have no \<open>u\<close>
  flag) work on the same units. \<open>asc\<close> embeds an ASCII literal.
\<close>

type_synonym jsstring = "nat list"

definition asc :: "string \<Rightarrow> jsstring" where
  "asc s = map of_char s"

text \<open>The white space that \<open>String.prototype.trim\<close> and \<open>parseInt\<close> strip.\<close>

definition isWhiteSpace :: "nat \<Rightarrow> bool" where
  "isWhiteSpace c \<longleftrightarrow>
     c \<in> set [9, 10, 11, 12, 13, 32, 160, 5760, 8232, 8233, 8239, 8287, 12288, 65279]
     \<or> (8192 \<le> c \<and> c \<le> 8202)"

definition trim :: "jsstring \<Rightarrow> jsstring" where
  "trim s = rev (dropWhile isWhiteSpace (rev (dropWhile isWhiteSpace s)))"

text \<open>\<open>s.split(sep)\<close> for a separator of one code unit.\<close>

fun split_at :: "nat \<Rightarrow> jsstring \<Rightarrow> jsstring list" where
  "split_at sep [] = [ []]"
| "split_at sep (c # cs) =
     (if c = sep then [] # split_at sep cs
      else (case split_at sep cs of p # ps \<Rightarrow> (c # p) # ps | [] \<Rightarrow> [ [c]]))"

text \<open>
  Indexing an array or a string: out of range the result is \<open>undefined\<close>, here \<open>None\<close>.
  \<open>charAt s i\<close> is \<open>s[i]\<close>, a string of one code unit.
\<close>

definition item :: "'a list \<Rightarrow> nat \<Rightarrow> 'a option" where
  "item xs i = (if i < length xs then Some (xs ! i) else None)"

definition charAt :: "jsstring \<Rightarrow> nat \<Rightarrow> jsstring option" where
  "charAt s i = map_option (\<lambda>c. [c]) (item s i)"

text \<open>
  \<open>s.substring(a, b)\<close>: both indices are clamped to the string and swapped when they
  are out of order.
\<close>

definition substring :: "jsstring \<Rightarrow> int \<Rightarrow> int \<Rightarrow> jsstring" where
  "substring s a b =
     (let len = int (length s);
          a' = min (max a 0) len;
          b' = min (max b 0) len;
          lo = min a' b';
          hi = max a' b'
      in take (nat (hi - lo)) (drop (nat lo) s))"

text \<open>
  The integer-valued numbers of the converters: \<open>None\<close> is \<open>NaN\<close>, for which every
  comparison is false. Comparison, remainder and subtraction of integer-valued doubles
  are exact.
\<close>

type_synonym jsint = "int option"

definition num_ge :: "jsint \<Rightarrow> int \<Rightarrow> bool" where
  "num_ge a b = (case a of None \<Rightarrow> False | Some k \<Rightarrow> k \<ge> b)"

definition num_gt :: "jsint \<Rightarrow> int \<Rightarrow> bool" where
  "num_gt a b = (case a of None \<Rightarrow> False | Some k \<Rightarrow> k > b)"

text \<open>
  \<open>Math.floor(a / b)\<close>. The quotient \<open>a / b\<close> is a double, rounded to nearest. While
  \<open>a\<close> stays below \<open>2^53\<close> in magnitude the rounding never reaches the next integer, and
  the floor is the exact \<open>a div b\<close>. From \<open>2^53\<close> on it can (at 73786976294999998464 and
  \<open>10^9\<close> the floor is one more than the exact one), so there the rounded quotient is
  taken from the parameter \<open>quot\<close>, the runtime's division.
\<close>

definition floor_div :: "(int \<Rightarrow> int \<Rightarrow> rat) \<Rightarrow> jsint \<Rightarrow> int \<Rightarrow> jsint" where
  "floor_div quot a b =
     map_option (\<lambda>k. if \<bar>k\<bar> < 9007199254740992 then k div b else \<lfloor>quot k b\<rfloor>) a"

text \<open>\<open>a % b\<close> (the remainder has the sign of \<open>a\<close>) and \<open>a - b\<close>.\<close>

definition num_rem :: "jsint \<Rightarrow> int \<Rightarrow> jsint" where
  "num_rem a b = map_option (\<lambda>k. sgn k * (\<bar>k\<bar> mod \<bar>b\<bar>)) a"

definition num_sub :: "jsint \<Rightarrow> int \<Rightarrow> jsint" where
  "num_sub a b = map_option (\<lambda>k. k - b) a"

text \<open>
  Reading a table of strings at a number and appending the result to a string: an index
  outside the table (or \<open>NaN\<close>) reads \<open>undefined\<close>, which concatenation turns into the
  text \<open>undefined\<close>.
\<close>

definition lookup :: "jsstring list \<Rightarrow> jsint \<Rightarrow> jsstring" where
  "lookup tbl i =
     (case i of
        None \<Rightarrow> asc ''undefined''
      | Some k \<Rightarrow> if 0 \<le> k \<and> k < int (length tbl) then tbl ! nat k else asc ''undefined'')"

text \<open>
  \<open>parseInt(v)\<close> with no radix: \<open>undefined\<close> is read as the text \<open>undefined\<close>, leading
  white space is dropped, then a sign, then a \<open>0x\<close> prefix selects radix 16, and the longest
  prefix of digits is the value; no digit at all gives \<open>NaN\<close>.
\<close>

definition digitValue :: "nat \<Rightarrow> nat option" where
  "digitValue c =
     (if 48 \<le> c \<and> c \<le> 57 then Some (c - 48)
      else if 97 \<le> c \<and> c \<le> 122 then Some (c - 87)
      else if 65 \<le> c \<and> c \<le> 90 then Some (c - 55)
      else None)"

fun digitPrefix :: "nat \<Rightarrow> jsstring \<Rightarrow> nat list" where
  "digitPrefix R [] = []"
| "digitPrefix R (c # cs) =
     (case digitValue c of
        Some d \<Rightarrow> if d < R then d # digitPrefix R cs else []
      | None \<Rightarrow> [])"

definition parseInt :: "jsstring option \<Rightarrow> jsint" where
  "parseInt v =
     (let s = (case v of None \<Rightarrow> asc ''undefined'' | Some s \<Rightarrow> s);
          t = dropWhile isWhiteSpace s;
          (sign, u) = (case t of
                         c # r \<Rightarrow> if c = 45 then (- 1, r) else if c = 43 then (1, r) else (1, t)
                       | [] \<Rightarrow> (1, t));
          (R, w) = (case u of
                      a # b # r \<Rightarrow> if a = 48 \<and> (b = 120 \<or> b = 88) then (16, r) else (10, u)
                    | _ \<Rightarrow> (10, u));
          ds = digitPrefix R w
      in if ds = [] then None
         else Some (sign * foldl (\<lambda>a d. a * int R + int d) 0 ds))"

text \<open>The decimal digits of a natural number, most significant first.\<close>

fun digits :: "nat \<Rightarrow> jsstring" where
  "digits n = (if n < 10 then [48 + n] else digits (n div 10) @ [48 + n mod 10])"

declare digits.simps [simp del]

text \<open>
  A JavaScript number is \<open>NaN\<close>, an infinity, or a finite double; a finite double is
  modelled by the rational number it denotes (both zeros are \<open>Finite 0\<close>). Which double
  a text denotes is the runtime's business (\<open>parseFloat\<close> below); what the converters do
  with the number is exact arithmetic on its value.

  \<open>toFixed2\<close> is \<open>num.toFixed(2)\<close> as ECMA-262 defines it: the sign, then for a magnitude
  below \<open>10^21\<close> the integer \<open>n\<close> nearest to a hundred times the magnitude (the larger
  one on a tie), written in decimal with a point before its last two digits and padded to
  three digits. From \<open>10^21\<close> on the result is the number's ordinary rendering, which the
  parameter \<open>big\<close> supplies.
\<close>

datatype jsnum = NaN | PosInf | NegInf | Finite rat

definition pointBeforeLastTwo :: "nat \<Rightarrow> jsstring" where
  "pointBeforeLastTwo n =
     (let m = digits n;
          m' = (if length m \<le> 2 then replicate (3 - length m) 48 @ m else m);
          k = length m'
      in take (k - 2) m' @ asc ''.'' @ drop (k - 2) m')"

definition toFixed2 :: "(rat \<Rightarrow> jsstring) \<Rightarrow> jsnum \<Rightarrow> jsstring" where
  "toFixed2 big num =
     (case num of
        NaN \<Rightarrow> asc ''NaN''
      | PosInf \<Rightarrow> asc ''Infinity''
      | NegInf \<Rightarrow> asc ''-Infinity''
      | Finite x \<Rightarrow>
          (let s = (if x < 0 then asc ''-'' else []);
               a = \<bar>x\<bar>
           in if a \<ge> 10 ^ 21 then s @ big a
              else s @ pointBeforeLastTwo (nat \<lfloor>a * 100 + 1 / 2\<rfloor>)))"

text \<open>
  A calendar date as \<open>getFullYear\<close>, \<open>getMonth\<close> (from 0) and \<open>getDate\<close> read it.
\<close>

record jsdate =
  fullYear :: int
  month :: nat
  dayOfMonth :: nat

text \<open>
  The parts of the JavaScript runtime that the code relies on and that are not exact
  arithmetic: parsing a text as a double, rendering a double of magnitude \<open>10^21\<close> or
  more, the rounded quotient of two integer-valued doubles, the two locale formatters,
  the clock, and \<open>Object.prototype\<close>: which property names it answers (\<open>inherited\<close>)
  and what \<open>toString()\<close> of the value under such a name returns (\<open>objectText\<close>).
\<close>

record runtime =
  parseFloat :: "jsstring \<Rightarrow> jsnum"
  numberToString :: "rat \<Rightarrow> jsstring"
  quotient :: "int \<Rightarrow> int \<Rightarrow> rat"
  toLocaleString :: "jsnum \<Rightarrow> jsstring"
  toLocaleDateString :: "jsdate \<Rightarrow> jsstring"
  today :: jsdate
  inherited :: "jsstring \<Rightarrow> bool"
  objectText :: "jsstring \<Rightarrow> jsstring"

text \<open>
  A value read from the print values or stored as the text of an object: a string, or
  the value that \<open>Object.prototype\<close> holds under a property name (a function, or the
  prototype itself under \<open>__proto__\<close>). Such a value is an object: it is truthy, it is
  not \<open>undefined\<close>, and it is not a string.
\<close>

datatype jsvalue = Str jsstring | Obj jsstring

text \<open>
  The converters are typed \<open>number | string\<close>, and resolution can also hand them a value
  of \<open>Object.prototype\<close> (\<open>AObj\<close>, by its property name). They start with
  \<open>parseFloat(amount.toString())\<close>: for a string that is \<open>parseFloat\<close> of it, a number
  survives the round trip through its own rendering unchanged, and for an object it is
  \<open>parseFloat\<close> of the object's text.
\<close>

datatype amount = AStr jsstring | ANum jsnum | AObj jsstring

fun parsed :: "runtime \<Rightarrow> amount \<Rightarrow> jsnum" where
  "parsed rt (AStr s) = parseFloat rt s"
| "parsed rt (ANum n) = n"
| "parsed rt (AObj name) = parseFloat rt (objectText rt name)"

fun toAmount :: "jsvalue \<Rightarrow> amount" where
  "toAmount (Str s) = AStr s"
| "toAmount (Obj name) = AObj name"

section \<open>The English converter\<close>

definition ONES :: "jsstring list" where
  "ONES = map asc ['''', ''One'', ''Two'', ''Three'', ''Four'', ''Five'', ''Six'', ''Seven'',
                   ''Eight'', ''Nine'']"

definition TEENS :: "jsstring list" where
  "TEENS = map asc [''Ten'', ''Eleven'', ''Twelve'', ''Thirteen'', ''Fourteen'', ''Fifteen'',
                    ''Sixteen'', ''Seventeen'', ''Eighteen'', ''Nineteen'']"

definition TENS :: "jsstring list" where
  "TENS = map asc ['''', '''', ''Twenty'', ''Thirty'', ''Forty'', ''Fifty'', ''Sixty'',
                   ''Seventy'', ''Eighty'', ''Ninety'']"

definition convertGroup :: "runtime \<Rightarrow> jsint \<Rightarrow> jsstring" where
  "convertGroup rt n =
     (let str = [];
          (str, n) = (if num_ge n 100
                      then (str @ lookup ONES (floor_div (quotient rt) n 100) @ asc '' Hundred '',
                            num_rem n 100)
                      else (str, n));
          (str, n) = (if num_ge n 20
                      then (str @ lookup TENS (floor_div (quotient rt) n 10) @ asc '' '', num_rem n 10)
                      else (str, n));
          (str, n) = (if num_ge n 10
                      then (str @ lookup TEENS (num_sub n 10) @ asc '' '', Some 0)
                      else (str, n));
          str = (if num_gt n 0 then str @ lookup ONES n @ asc '' '' else str)
      in trim str)"

definition numberToEnglish :: "runtime \<Rightarrow> amount \<Rightarrow> jsstring" where
  "numberToEnglish rt amount =
     (let num = parsed rt amount in
      if num = NaN then asc ''Zero Dollars Only''
      else if num = Finite 0 then asc ''Zero Dollars Only''
      else
        (let parts = split_at 46 (toFixed2 (numberToString rt) num);
             integerPart = parseInt (item parts 0);
             decimalPart = parseInt (item parts 1);
             result = [];
             (result, integerPart) =
               (if num_ge integerPart 1000000000
                then (result @ convertGroup rt (floor_div (quotient rt) integerPart 1000000000)
                             @ asc '' Billion '',
                      num_rem integerPart 1000000000)
                else (result, integerPart));
             (result, integerPart) =
               (if num_ge integerPart 1000000
                then (result @ convertGroup rt (floor_div (quotient rt) integerPart 1000000)
                             @ asc '' Million '',
                      num_rem integerPart 1000000)
                else (result, integerPart));
             (result, integerPart) =
               (if num_ge integerPart 1000
                then (result @ convertGroup rt (floor_div (quotient rt) integerPart 1000)
                             @ asc '' Thousand '',
                      num_rem integerPart 1000)
                else (result, integerPart));
             result = (if num_gt integerPart 0 then result @ convertGroup rt integerPart else result);
             result = trim result @ asc '' Dollars''
         in if num_gt decimalPart 0
            then result @ asc '' And '' @ convertGroup rt decimalPart @ asc '' Cents''
            else result @ asc '' Only''))"

section \<open>The Chinese converter\<close>

text \<open>
  The glyphs, by code point: the ten numerals U+96F6 (zero), U+58F9, U+8CB3, U+53C3,
  U+8086, U+4F0D, U+9678, U+67D2, U+634C, U+7396; the units U+62FE (ten), U+4F70 (hundred),
  U+4EDF (thousand); the group words U+842C (ten thousand), U+5104 (hundred million),
  U+5146 (trillion); U+5713 (yuan), U+6574 (whole), U+89D2 (jiao), U+5206 (fen).
\<close>

definition zero_glyph :: nat where "zero_glyph = 0x96F6"
definition yuan_glyph :: nat where "yuan_glyph = 0x5713"
definition whole_glyph :: nat where "whole_glyph = 0x6574"
definition jiao_glyph :: nat where "jiao_glyph = 0x89D2"
definition fen_glyph :: nat where "fen_glyph = 0x5206"

definition CH_NUMS :: "jsstring list" where
  "CH_NUMS = [ [zero_glyph], [0x58F9], [0x8CB3], [0x53C3], [0x8086], [0x4F0D], [0x9678],
              [0x67D2], [0x634C], [0x7396]]"

definition CH_UNITS :: "jsstring list" where
  "CH_UNITS = [ [], [0x62FE], [0x4F70], [0x4EDF]]"

definition CH_GROUPS :: "jsstring list" where
  "CH_GROUPS = [ [], [0x842C], [0x5104], [0x5146]]"

text \<open>The inner loop, over the digits of one chunk, from index \<open>j\<close> on.\<close>

function chunkLoop :: "jsstring \<Rightarrow> nat \<Rightarrow> jsstring \<Rightarrow> nat \<Rightarrow> jsstring" where
  "chunkLoop chunk j groupResult chunkZero =
     (if j < length chunk then
        (let digit = parseInt (charAt chunk j);
             unitIdx = int (length chunk) - 1 - int j
         in if digit \<noteq> Some 0 then
              chunkLoop chunk (j + 1)
                ((if chunkZero > 0 then groupResult @ lookup CH_NUMS (Some 0) else groupResult)
                 @ lookup CH_NUMS digit @ lookup CH_UNITS (Some unitIdx))
                0
            else chunkLoop chunk (j + 1) groupResult (chunkZero + 1))
      else groupResult)"
  by pat_completeness auto
termination
  by (relation "measure (\<lambda>(chunk, j, groupResult, chunkZero). length chunk - j)") auto

declare chunkLoop.simps [simp del]

text \<open>
  The outer loop, four digits at a time from the right: \<open>i\<close> is the end of the current
  chunk, and the loop carries \<open>result\<close>, \<open>zeroCount\<close> and \<open>groupIndex\<close>.
\<close>

function groupLoop :: "jsstring \<Rightarrow> int \<Rightarrow> jsstring \<Rightarrow> nat \<Rightarrow> nat \<Rightarrow> jsstring" where
  "groupLoop intStr i result zeroCount groupIndex =
     (if i > 0 then
        (let len = int (length intStr);
             start = max 0 (i - 4);
             chunk = substring intStr start i;
             chunkNum = parseInt (Some chunk)
         in if chunkNum = Some 0 then
              groupLoop intStr (i - 4) result
                (if result \<noteq> [] \<and> i \<noteq> len then zeroCount + 1 else zeroCount)
                (groupIndex + 1)
            else
              (let groupResult = chunkLoop chunk 0 [] 0;
                   result = groupResult @ lookup CH_GROUPS (Some (int groupIndex)) @ result;
                   (result, zeroCount) =
                     (if zeroCount > 0 then (lookup CH_NUMS (Some 0) @ result, 0)
                      else (result, zeroCount))
               in groupLoop intStr (i - 4) result zeroCount (groupIndex + 1)))
      else result)"
  by pat_completeness auto
termination
  by (relation "measure (\<lambda>(intStr, i, result, zeroCount, groupIndex). nat i)") auto

declare groupLoop.simps [simp del]

text \<open>
  The three replacements of the final clean-up:
  \<open>replace(/Z+/g, Z)\<close> keeps one glyph of every maximal run of the zero glyph \<open>Z\<close>,
  \<open>replace(/ZY/, Y)\<close> drops the zero glyph of the first zero-yuan pair, and
  \<open>replace(/^Y/, ZY)\<close> puts a zero glyph in front of a leading yuan.
\<close>

fun collapseZeros :: "jsstring \<Rightarrow> jsstring" where
  "collapseZeros (a # b # cs) =
     (if a = zero_glyph \<and> b = zero_glyph then collapseZeros (b # cs)
      else a # collapseZeros (b # cs))"
| "collapseZeros cs = cs"

fun dropZeroBeforeYuan :: "jsstring \<Rightarrow> jsstring" where
  "dropZeroBeforeYuan (a # b # cs) =
     (if a = zero_glyph \<and> b = yuan_glyph then b # cs
      else a # dropZeroBeforeYuan (b # cs))"
| "dropZeroBeforeYuan cs = cs"

fun zeroBeforeLeadingYuan :: "jsstring \<Rightarrow> jsstring" where
  "zeroBeforeLeadingYuan (a # cs) =
     (if a = yuan_glyph then zero_glyph # a # cs else a # cs)"
| "zeroBeforeLeadingYuan [] = []"

definition cleanup :: "jsstring \<Rightarrow> jsstring" where
  "cleanup result = zeroBeforeLeadingYuan (dropZeroBeforeYuan (collapseZeros result))"

datatype jserror = TypeError

text \<open>
  \<open>numberToChinese\<close>. When the fixed rendering has no decimal point, \<open>decStr\<close> is
  \<open>undefined\<close> and reading \<open>decStr[0]\<close> throws a \<open>TypeError\<close>.
\<close>

definition numberToChinese :: "runtime \<Rightarrow> amount \<Rightarrow> jserror + jsstring" where
  "numberToChinese rt amount =
     (let num = parsed rt amount in
      if num = NaN then Inr [zero_glyph, yuan_glyph, whole_glyph]
      else
        (let str = toFixed2 (numberToString rt) num;
             parts = split_at 46 str
         in case parts of
              [] \<Rightarrow> Inl TypeError
            | intStr # rest \<Rightarrow>
                (let decStr = item rest 0;
                     result = groupLoop intStr (int (length intStr)) [] 0 0;
                     result = (if result = [] then lookup CH_NUMS (Some 0) else result);
                     result = result @ [yuan_glyph]
                 in case decStr of
                      None \<Rightarrow> Inl TypeError
                    | Some d \<Rightarrow>
                        (let jiao = parseInt (charAt d 0);
                             fen = parseInt (charAt d 1);
                             result =
                               (if jiao = Some 0 \<and> fen = Some 0 then result @ [whole_glyph]
                                else
                                  (let result =
                                         (if num_gt jiao 0
                                          then result @ lookup CH_NUMS jiao @ [jiao_glyph]
                                          else if jiao = Some 0 \<and> num_gt fen 0
                                          then result @ lookup CH_NUMS (Some 0)
                                          else result)
                                   in if num_gt fen 0
                                      then result @ lookup CH_NUMS fen @ [fen_glyph]
                                      else result))
                         in Inr (cleanup result)))))"

section \<open>The numeral converter and the date formatter\<close>

text \<open>
  On a parse failure \<open>formatCurrency\<close> returns \<open>amount.toString()\<close>: the string itself,
  \<open>NaN\<close> for the number \<open>NaN\<close>, the only number that reaches that branch, and the
  object's text for an object.
\<close>

definition formatCurrency :: "runtime \<Rightarrow> amount \<Rightarrow> jsstring" where
  "formatCurrency rt amount =
     (let num = parsed rt amount in
      if num = NaN
      then (case amount of AStr s \<Rightarrow> s | ANum n \<Rightarrow> asc ''NaN'' | AObj name \<Rightarrow> objectText rt name)
      else toLocaleString rt num)"

definition intToString :: "int \<Rightarrow> jsstring" where
  "intToString k = (if k < 0 then asc ''-'' @ digits (nat (- k)) else digits (nat k))"

definition padStart2 :: "jsstring \<Rightarrow> jsstring" where
  "padStart2 s = replicate (2 - length s) 48 @ s"

definition formatDate :: "runtime \<Rightarrow> jsdate \<Rightarrow> jsstring \<Rightarrow> jsstring" where
  "formatDate rt date formatStr =
     (let yyyy = intToString (fullYear date);
          mm = padStart2 (digits (month date + 1));
          dd = padStart2 (digits (dayOfMonth date))
      in if formatStr = asc ''YYYY-MM-DD'' then yyyy @ asc ''-'' @ mm @ asc ''-'' @ dd
         else if formatStr = asc ''DD/MM/YYYY'' then dd @ asc ''/'' @ mm @ asc ''/'' @ yyyy
         else if formatStr = asc ''MM/DD/YYYY'' then mm @ asc ''/'' @ dd @ asc ''/'' @ yyyy
         else if formatStr = asc ''DD Month YYYY'' then toLocaleDateString rt date
         else yyyy @ asc ''-'' @ mm @ asc ''-'' @ dd)"

section \<open>Canvas objects and the resolution of their text\<close>

datatype LogicType =
  STATIC | VARIABLE | DATE | CURRENCY_ENG | CURRENCY_CHI | CURRENCY_NUM | CUSTOMER_NAME

datatype ObjectKind = TextObject | ImageObject

datatype Alignment = AlignLeft | AlignCenter | AlignRight

text \<open>
  \<open>CanvasObject\<close> of \<open>types.ts\<close>; an optional field that is absent is \<open>None\<close>. The
  fields \<open>id\<close>, \<open>type\<close>, \<open>text\<close>, \<open>x\<close> and \<open>y\<close> carry the prefix \<open>obj\<close>. The text
  is declared a string, but resolution stores whatever value it computed, so the field
  holds a \<open>jsvalue\<close>.
\<close>

record CanvasObject =
  objId :: jsstring
  objType :: ObjectKind
  objX :: rat
  objY :: rat
  width :: rat
  height :: "rat option"
  objText :: "jsvalue option"
  rawValue :: "jsstring option"
  src :: "jsstring option"
  variableKey :: "jsstring option"
  fontSize :: "rat option"
  fontFamily :: "jsstring option"
  align :: "Alignment option"
  logicType :: "LogicType option"
  dateFormat :: "jsstring option"
  opacity :: "rat option"

text \<open>
  \<open>v || d\<close> on an optional string: \<open>undefined\<close> and the empty string are falsy.
\<close>

definition orElse :: "jsstring option \<Rightarrow> jsstring \<Rightarrow> jsstring" where
  "orElse v d = (case v of None \<Rightarrow> d | Some s \<Rightarrow> if s = [] then d else s)"

text \<open>
  The print values are a plain object used as a dictionary: its own properties are a map
  from keys to strings, and reading \<open>printValues[key]\<close> looks the key up there first and
  in \<open>Object.prototype\<close> next, so that a key such as \<open>constructor\<close> is answered even when
  nothing is bound to it. \<open>None\<close> is \<open>undefined\<close>.
\<close>

type_synonym bindings = "jsstring \<rightharpoonup> jsstring"

definition getProperty :: "runtime \<Rightarrow> bindings \<Rightarrow> jsstring \<Rightarrow> jsvalue option" where
  "getProperty rt printValues key =
     (case printValues key of
        Some v \<Rightarrow> Some (Str v)
      | None \<Rightarrow> if inherited rt key then Some (Obj key) else None)"

definition effectiveValue :: "runtime \<Rightarrow> bindings \<Rightarrow> CanvasObject \<Rightarrow> jsvalue" where
  "effectiveValue rt printValues obj =
     (case variableKey obj of
        None \<Rightarrow> Str (orElse (rawValue obj) [])
      | Some k \<Rightarrow>
          if k = [] then Str (orElse (rawValue obj) [])
          else (case getProperty rt printValues k of
                  None \<Rightarrow> Str (orElse (rawValue obj) [])
                | Some v \<Rightarrow> if v \<noteq> Str [] then v else Str (orElse (rawValue obj) [])))"

text \<open>The body of the \<open>map\<close> callback of the recalculation effect, for one object.\<close>

definition resolveObject :: "runtime \<Rightarrow> bindings \<Rightarrow> CanvasObject \<Rightarrow> jserror + CanvasObject" where
  "resolveObject rt printValues obj =
     (if objType obj = ImageObject then Inr obj
      else
        (let effective = effectiveValue rt printValues obj;
             keyBound = (\<lambda>k. k \<noteq> [] \<and> getProperty rt printValues k \<noteq> None);
             keyTruthy = (\<lambda>k. k \<noteq> [] \<and> getProperty rt printValues k \<noteq> None
                              \<and> getProperty rt printValues k \<noteq> Some (Str []));
             newText =
               (case logicType obj of
                  Some DATE \<Rightarrow>
                    Inr (Str (formatDate rt (today rt)
                                (orElse (dateFormat obj) (asc ''YYYY-MM-DD''))))
                | Some CURRENCY_ENG \<Rightarrow> Inr (Str (numberToEnglish rt (toAmount effective)))
                | Some CURRENCY_CHI \<Rightarrow>
                    (case numberToChinese rt (toAmount effective) of
                       Inl e \<Rightarrow> Inl e
                     | Inr t \<Rightarrow> Inr (Str t))
                | Some CURRENCY_NUM \<Rightarrow> Inr (Str (formatCurrency rt (toAmount effective)))
                | Some VARIABLE \<Rightarrow>
                    (let newText =
                           (if (case variableKey obj of None \<Rightarrow> False | Some k \<Rightarrow> keyTruthy k)
                            then effective
                            else Str (asc ''{{'' @ orElse (variableKey obj) (asc ''var'')
                                      @ asc ''}}''))
                     in if (case variableKey obj of None \<Rightarrow> False | Some k \<Rightarrow> keyBound k)
                        then Inr effective
                        else Inr newText)
                | Some CUSTOMER_NAME \<Rightarrow> Inr effective
                | _ \<Rightarrow> Inr effective)
         in case newText of
              Inl e \<Rightarrow> Inl e
            | Inr t \<Rightarrow> if Some t \<noteq> objText obj then Inr (obj\<lparr>objText := Some t\<rparr>) else Inr obj))"

text \<open>
  The effect maps the callback over the collection; an exception in one object leaves
  the whole update undone. Whether the result is returned as the new array or as the old
  one makes no difference to its value.
\<close>

fun resolveObjects :: "runtime \<Rightarrow> bindings \<Rightarrow> CanvasObject list \<Rightarrow> jserror + CanvasObject list" where
  "resolveObjects rt printValues [] = Inr []"
| "resolveObjects rt printValues (obj # objs) =
     (case resolveObject rt printValues obj of
        Inl e \<Rightarrow> Inl e
      | Inr obj' \<Rightarrow>
          (case resolveObjects rt printValues objs of
             Inl e \<Rightarrow> Inl e
           | Inr objs' \<Rightarrow> Inr (obj' # objs')))"

section \<open>The editor state: objects, selection and history\<close>

text \<open>
  The part of the editor's state that the history functions read and write. The live
  collection is \<open>None\<close> when it holds \<open>undefined\<close>, which is what reading the history
  outside its range would store. The history functions never look inside an object, so
  the state is polymorphic in the object type. Each handler is modelled as it runs on
  the state of the latest render.
\<close>

record 'o editor =
  objects :: "'o list option"
  selectedId :: "jsstring option"
  history :: "'o list list"
  historyIndex :: int

text \<open>\<open>xs.slice(0, e)\<close>: a negative end counts from the end of the array.\<close>

definition slice0 :: "'a list \<Rightarrow> int \<Rightarrow> 'a list" where
  "slice0 xs e = take (nat (if e < 0 then max 0 (int (length xs) + e) else e)) xs"

text \<open>\<open>xs[i]\<close> at a number.\<close>

definition at_index :: "'a list \<Rightarrow> int \<Rightarrow> 'a option" where
  "at_index xs i = (if 0 \<le> i \<and> i < int (length xs) then Some (xs ! nat i) else None)"

definition saveToHistory :: "'o list \<Rightarrow> 'o editor \<Rightarrow> 'o editor" where
  "saveToHistory newObjects s =
     (let newHistory = slice0 (history s) (historyIndex s + 1);
          newHistory = newHistory @ [newObjects];
          newHistory = (if length newHistory > 50 then tl newHistory else newHistory)
      in s\<lparr>history := newHistory, historyIndex := min (historyIndex s + 1) 49\<rparr>)"

definition updateObjects :: "'o list \<Rightarrow> bool \<Rightarrow> 'o editor \<Rightarrow> 'o editor" where
  "updateObjects newObjs recordHistory s =
     (let s = s\<lparr>objects := Some newObjs\<rparr>
      in if recordHistory then saveToHistory newObjs s else s)"

definition handleUndo :: "'o editor \<Rightarrow> 'o editor" where
  "handleUndo s =
     (if historyIndex s > 0 then
        (let newIndex = historyIndex s - 1
         in s\<lparr>historyIndex := newIndex, objects := at_index (history s) newIndex\<rparr>)
      else s)"

definition handleRedo :: "'o editor \<Rightarrow> 'o editor" where
  "handleRedo s =
     (if historyIndex s < int (length (history s)) - 1 then
        (let newIndex = historyIndex s + 1
         in s\<lparr>historyIndex := newIndex, objects := at_index (history s) newIndex\<rparr>)
      else s)"

text \<open>
  \<open>handleDeleteObject\<close>: filtering an undefined collection throws.
\<close>

definition handleDeleteObject :: "jsstring \<Rightarrow> CanvasObject editor \<Rightarrow> jserror + CanvasObject editor" where
  "handleDeleteObject objId' s =
     (case objects s of
        None \<Rightarrow> Inl TypeError
      | Some objs \<Rightarrow>
          (let newList = filter (\<lambda>ob. objId ob \<noteq> objId') objs;
               s = updateObjects newList True s
           in Inr (if selectedId s = Some objId' then s\<lparr>selectedId := None\<rparr> else s)))"

text \<open>
  Opening a template (or a new one) sets the history to the one snapshot loaded and the
  index to 0.
\<close>

definition loaded :: "'o list \<Rightarrow> 'o editor" where
  "loaded objs = \<lparr>objects = Some objs, selectedId = None, history = [objs], historyIndex = 0\<rparr>"



section \<open>Predicates and sample data for the properties\<close>

text \<open>Two zero glyphs next to each other somewhere in a string.\<close>

fun consecutiveZeros :: "jsstring \<Rightarrow> bool" where
  "consecutiveZeros (a # b # cs) =
     ((a = zero_glyph \<and> b = zero_glyph) \<or> consecutiveZeros (b # cs))"
| "consecutiveZeros cs = False"

text \<open>
  A runtime for concrete runs. It parses the one text \<open>1234.56\<close>, to the double nearest
  to that decimal, and nothing else. It renders \<open>10^21\<close> as \<open>1e+21\<close> and \<open>15 * 10^20\<close> as
  \<open>1.5e+21\<close>, as JavaScript does; its quotient is the exact one. Its \<open>Object.prototype\<close>
  answers the twelve names of ECMA-262, with the texts that a browser gives for them.
\<close>

definition prototypeNames :: "jsstring list" where
  "prototypeNames =
     map asc [''constructor'', ''hasOwnProperty'', ''isPrototypeOf'', ''propertyIsEnumerable'',
              ''toLocaleString'', ''toString'', ''valueOf'', ''__proto__'', ''__defineGetter__'',
              ''__defineSetter__'', ''__lookupGetter__'', ''__lookupSetter__'']"

definition sample_runtime :: runtime where
  "sample_runtime =
     \<lparr>parseFloat = (\<lambda>s. if s = asc ''1234.56''
                         then Finite (2714826150374277 / 2199023255552) else NaN),
      numberToString = (\<lambda>x. if x = 15 * 10 ^ 20 then asc ''1.5e+21'' else asc ''1e+21''),
      quotient = (\<lambda>a b. of_int a / of_int b),
      toLocaleString = (\<lambda>n. asc ''1,234.56''),
      toLocaleDateString = (\<lambda>d. asc ''January 1, 2024''),
      today = \<lparr>fullYear = 2024, month = 0, dayOfMonth = 1\<rparr>,
      inherited = (\<lambda>key. key \<in> set prototypeNames),
      objectText = (\<lambda>key. if key = asc ''__proto__'' then asc ''[object Object]''
                           else asc ''function ''
                                @ (if key = asc ''constructor'' then asc ''Object'' else key)
                                @ asc ''() { [native code] }'')\<rparr>"

text \<open>
  The two decimal digits of an amount as \<open>toFixed(2)\<close> fixes them: jiao is the first,
  fen the second.
\<close>

definition hundredths :: "rat \<Rightarrow> nat" where
  "hundredths x = nat \<lfloor>\<bar>x\<bar> * 100 + 1 / 2\<rfloor>"

definition jiaoDigit :: "rat \<Rightarrow> nat" where
  "jiaoDigit x = hundredths x div 10 mod 10"

definition fenDigit :: "rat \<Rightarrow> nat" where
  "fenDigit x = hundredths x mod 10"

text \<open>
  The decimal part as the specification words it: the whole glyph when jiao and fen are
  both zero; a zero glyph, the fen digit and the fen glyph when only jiao is zero;
  otherwise the jiao digit and the jiao glyph, followed when fen is not zero by the fen
  digit and the fen glyph.
\<close>

definition spec_decimal_part :: "nat \<Rightarrow> nat \<Rightarrow> jsstring" where
  "spec_decimal_part jiao fen =
     (if jiao = 0 \<and> fen = 0 then [whole_glyph]
      else if jiao = 0 then [zero_glyph] @ CH_NUMS ! fen @ [fen_glyph]
      else CH_NUMS ! jiao @ [jiao_glyph]
           @ (if fen \<noteq> 0 then CH_NUMS ! fen @ [fen_glyph] else []))"

text \<open>The text a field has after resolution; \<open>None\<close> when resolution throws.\<close>

definition resolvedText :: "runtime \<Rightarrow> bindings \<Rightarrow> CanvasObject \<Rightarrow> jsvalue option" where
  "resolvedText rt printValues obj =
     (case resolveObject rt printValues obj of Inl e \<Rightarrow> None | Inr obj' \<Rightarrow> objText obj')"

text \<open>
  The effective value as the specification words it: the bound value when the variable
  key is set (a key that is not the empty string) and bound to a value that is not empty,
  and the raw value otherwise (the empty string when there is none).
\<close>

definition spec_effective :: "bindings \<Rightarrow> CanvasObject \<Rightarrow> jsstring" where
  "spec_effective printValues obj =
     (let raw = (case rawValue obj of None \<Rightarrow> [] | Some r \<Rightarrow> r)
      in case variableKey obj of
           None \<Rightarrow> raw
         | Some k \<Rightarrow>
             (case printValues k of
                None \<Rightarrow> raw
              | Some v \<Rightarrow> if k \<noteq> [] \<and> v \<noteq> [] then v else raw))"

text \<open>
  A text field of a given kind, with the key \<open>amount\<close> and the raw value \<open>Text\<close>; and
  the same field with the key \<open>constructor\<close>.
\<close>

definition sample_field :: "LogicType \<Rightarrow> CanvasObject" where
  "sample_field kind =
     \<lparr>objId = asc ''f1'', objType = TextObject, objX = 50, objY = 50, width = 200,
      height = None, objText = Some (Str (asc ''{{amount}}'')), rawValue = Some (asc ''Text''),
      src = None, variableKey = Some (asc ''amount''), fontSize = Some 16,
      fontFamily = Some (asc ''Arial''), align = Some AlignLeft, logicType = Some kind,
      dateFormat = None, opacity = None\<rparr>"

definition constructor_field :: "LogicType \<Rightarrow> CanvasObject" where
  "constructor_field kind = (sample_field kind)\<lparr>variableKey := Some (asc ''constructor'')\<rparr>"

text \<open>The print values before anything is entered: the object \<open>{}\<close>.\<close>

definition printValues_none :: bindings where
  "printValues_none = Map.empty"





section \<open>Unfolding the loops and evaluating the built-ins\<close>

lemma digits_small: "n < 10 \<Longrightarrow> digits n = [48 + n]"
  by (simp add: digits.simps)

lemma digits_big: "10 \<le> n \<Longrightarrow> digits n = digits (n div 10) @ [48 + n mod 10]"
  by (subst digits.simps) simp

lemma floor_rat_numeral: "\<lfloor>(numeral a :: rat) / numeral b\<rfloor> = numeral a div numeral b"
  by (metis floor_divide_of_int_eq of_int_numeral)

lemma chunkLoop_step:
  "j < length chunk \<Longrightarrow>
   chunkLoop chunk j groupResult chunkZero =
     (let digit = parseInt (charAt chunk j);
          unitIdx = int (length chunk) - 1 - int j
      in if digit \<noteq> Some 0 then
           chunkLoop chunk (j + 1)
             ((if chunkZero > 0 then groupResult @ lookup CH_NUMS (Some 0) else groupResult)
              @ lookup CH_NUMS digit @ lookup CH_UNITS (Some unitIdx))
             0
         else chunkLoop chunk (j + 1) groupResult (chunkZero + 1))"
  by (subst chunkLoop.simps) simp

lemma chunkLoop_done:
  "\<not> j < length chunk \<Longrightarrow> chunkLoop chunk j groupResult chunkZero = groupResult"
  by (subst chunkLoop.simps) simp

lemma groupLoop_step:
  "i > 0 \<Longrightarrow>
   groupLoop intStr i result zeroCount groupIndex =
     (let len = int (length intStr);
          start = max 0 (i - 4);
          chunk = substring intStr start i;
          chunkNum = parseInt (Some chunk)
      in if chunkNum = Some 0 then
           groupLoop intStr (i - 4) result
             (if result \<noteq> [] \<and> i \<noteq> len then zeroCount + 1 else zeroCount)
             (groupIndex + 1)
         else
           (let groupResult = chunkLoop chunk 0 [] 0;
                result = groupResult @ lookup CH_GROUPS (Some (int groupIndex)) @ result;
                (result, zeroCount) =
                  (if zeroCount > 0 then (lookup CH_NUMS (Some 0) @ result, 0)
                   else (result, zeroCount))
            in groupLoop intStr (i - 4) result zeroCount (groupIndex + 1)))"
  by (subst groupLoop.simps) simp

lemma groupLoop_done:
  "\<not> i > 0 \<Longrightarrow> groupLoop intStr i result zeroCount groupIndex = result"
  by (subst groupLoop.simps) simp

lemmas js_eval =
  asc_def isWhiteSpace_def trim_def item_def charAt_def substring_def
  num_ge_def num_gt_def floor_div_def num_rem_def num_sub_def lookup_def digitValue_def
  parseInt_def digits_small digits_big floor_rat_numeral pointBeforeLastTwo_def toFixed2_def
  Let_def

lemmas en_eval = ONES_def TEENS_def TENS_def convertGroup_def numberToEnglish_def

lemmas ch_eval =
  zero_glyph_def yuan_glyph_def whole_glyph_def jiao_glyph_def fen_glyph_def
  CH_NUMS_def CH_UNITS_def CH_GROUPS_def
  chunkLoop_step chunkLoop_done groupLoop_step groupLoop_done
  cleanup_def numberToChinese_def

section \<open>The English converter on the three documented amounts\<close>

text \<open>
  Claim C6. \<open>numberToEnglish(0)\<close> is \<open>Zero Dollars Only\<close>, \<open>numberToEnglish(1234.56)\<close> is
  \<open>One Thousand Two Hundred Thirty Four Dollars And Fifty Six Cents\<close>, and
  \<open>numberToEnglish(1000000)\<close> is \<open>One Million Dollars Only\<close>, whatever the runtime. The
  number literal \<open>1234.56\<close> denotes the double \<open>2714826150374277 / 2^41\<close>, the one nearest
  to the decimal.
\<close>

theorem numberToEnglish_documented_amounts:
  "numberToEnglish rt (ANum (Finite 0)) = asc ''Zero Dollars Only''
   \<and> numberToEnglish rt (ANum (Finite (2714826150374277 / 2199023255552)))
       = asc ''One Thousand Two Hundred Thirty Four Dollars And Fifty Six Cents''
   \<and> numberToEnglish rt (ANum (Finite 1000000)) = asc ''One Million Dollars Only''"
  by (simp add: js_eval en_eval)

section \<open>Input that does not parse\<close>

text \<open>
  Claim C8. For every input string that does not parse as a number (\<open>parseFloat\<close> gives
  \<open>NaN\<close>), no converter throws: \<open>numberToEnglish\<close> returns \<open>Zero Dollars Only\<close>,
  \<open>numberToChinese\<close> returns the three glyphs zero, yuan, whole, and \<open>formatCurrency\<close>
  returns the input string itself.
\<close>

theorem converters_fall_back_on_unparsable_input:
  "parseFloat rt s = NaN \<Longrightarrow>
     numberToEnglish rt (AStr s) = asc ''Zero Dollars Only''
     \<and> numberToChinese rt (AStr s) = Inr [zero_glyph, yuan_glyph, whole_glyph]
     \<and> formatCurrency rt (AStr s) = s"
  by (simp add: numberToEnglish_def numberToChinese_def formatCurrency_def)

theorem fallbacks_on_the_text_abc:
  "parseFloat sample_runtime (asc ''abc'') = NaN
   \<and> numberToEnglish sample_runtime (AStr (asc ''abc'')) = asc ''Zero Dollars Only''
   \<and> numberToChinese sample_runtime (AStr (asc ''abc'')) = Inr [0x96F6, 0x5713, 0x6574]
   \<and> formatCurrency sample_runtime (AStr (asc ''abc'')) = asc ''abc''"
proof -
  have unparsable: "parseFloat sample_runtime (asc ''abc'') = NaN"
    by (simp add: sample_runtime_def asc_def)
  from converters_fall_back_on_unparsable_input [OF unparsable] unparsable
  show ?thesis
    by (simp add: zero_glyph_def yuan_glyph_def whole_glyph_def)
qed

section \<open>Zero chunks in the Chinese converter\<close>

text \<open>
  Claim C2, at the amount 100000001 of its example. The chunks are \<open>1\<close>, \<open>0000\<close> and
  \<open>0001\<close>. The claim's rendering of the integer part is U+58F9 U+5104 U+96F6 U+58F9; the
  function returns that with one more zero glyph in front, because the glyph owed by the
  all-zero chunk is put before the whole result when the next nonzero chunk, the more
  significant one, is reached. The same happens at 100001000.
\<close>

theorem leading_zero_glyph_at_100000001:
  "numberToChinese rt (ANum (Finite 100000001))
     = Inr [0x96F6, 0x58F9, 0x5104, 0x96F6, 0x58F9, 0x5713, 0x6574]
   \<and> numberToChinese rt (ANum (Finite 100001000))
     = Inr [0x96F6, 0x58F9, 0x5104, 0x58F9, 0x4EDF, 0x5713, 0x6574]"
  by (simp add: js_eval ch_eval)

section \<open>No two zero glyphs in a row\<close>

lemma collapseZeros_Cons: "\<exists>r. collapseZeros (b # cs) = b # r"
  by (induction cs arbitrary: b) auto

lemma collapseZeros_clean: "\<not> consecutiveZeros (collapseZeros s)"
proof (induction s rule: collapseZeros.induct)
  case (1 a b cs)
  obtain r where r: "collapseZeros (b # cs) = b # r"
    using collapseZeros_Cons by blast
  with 1 show ?case by auto
qed simp_all

lemma dropZeroBeforeYuan_Cons:
  "a \<noteq> zero_glyph \<Longrightarrow> \<exists>r. dropZeroBeforeYuan (a # cs) = a # r"
  by (cases cs) auto

lemma dropZeroBeforeYuan_clean:
  "\<not> consecutiveZeros s \<Longrightarrow> \<not> consecutiveZeros (dropZeroBeforeYuan s)"
proof (induction s rule: dropZeroBeforeYuan.induct)
  case (1 a b cs)
  show ?case
  proof (cases "a = zero_glyph \<and> b = yuan_glyph")
    case True
    with 1 show ?thesis by simp
  next
    case False
    from 1 False have ih: "\<not> consecutiveZeros (dropZeroBeforeYuan (b # cs))" by simp
    show ?thesis
    proof (cases "b = zero_glyph")
      case True
      with 1 have "a \<noteq> zero_glyph" by simp
      with ih False show ?thesis
        by (cases "dropZeroBeforeYuan (b # cs)") auto
    next
      case b: False
      obtain r where r: "dropZeroBeforeYuan (b # cs) = b # r"
        using dropZeroBeforeYuan_Cons [OF b] by blast
      with ih False b show ?thesis by auto
    qed
  qed
qed simp_all

lemma zeroBeforeLeadingYuan_clean:
  "\<not> consecutiveZeros s \<Longrightarrow> \<not> consecutiveZeros (zeroBeforeLeadingYuan s)"
  by (cases s) (auto simp: yuan_glyph_def zero_glyph_def)

lemma cleanup_clean: "\<not> consecutiveZeros (cleanup s)"
  by (simp add: cleanup_def collapseZeros_clean dropZeroBeforeYuan_clean
      zeroBeforeLeadingYuan_clean)

lemma numberToChinese_cases:
  "numberToChinese rt amount = Inr s \<Longrightarrow>
     s = [zero_glyph, yuan_glyph, whole_glyph] \<or> (\<exists>r. s = cleanup r)"
  unfolding numberToChinese_def Let_def
  by (auto split: if_splits list.splits option.splits)

text \<open>
  Claim C10. Whatever the input and the runtime, a string that \<open>numberToChinese\<close> returns
  has no two zero glyphs next to each other.
\<close>

theorem numberToChinese_no_consecutive_zeros:
  "numberToChinese rt amount = Inr s \<Longrightarrow> \<not> consecutiveZeros s"
  using numberToChinese_cases [of rt amount s] cleanup_clean
  by (auto simp: yuan_glyph_def zero_glyph_def)

text \<open>
  At 1000100000001 the loop builds two zero glyphs in a row (one owed by the all-zero
  chunk, one for the leading zeros of the chunk \<open>0001\<close>), and the result has one.
\<close>

theorem one_zero_glyph_at_1000100000001:
  "numberToChinese sample_runtime (ANum (Finite 1000100000001))
     = Inr [0x58F9, 0x5146, 0x96F6, 0x58F9, 0x5104, 0x96F6, 0x58F9, 0x5713, 0x6574]
   \<and> \<not> consecutiveZeros [0x58F9, 0x5146, 0x96F6, 0x58F9, 0x5104, 0x96F6, 0x58F9, 0x5713, 0x6574]"
proof -
  have run: "numberToChinese sample_runtime (ANum (Finite 1000100000001))
     = Inr [0x58F9, 0x5146, 0x96F6, 0x58F9, 0x5104, 0x96F6, 0x58F9, 0x5713, 0x6574]"
    by (simp add: js_eval ch_eval)
  from numberToChinese_no_consecutive_zeros [OF run] run show ?thesis
    by simp
qed

section \<open>The decimal part of the Chinese rendering\<close>

lemma digits_range: "c \<in> set (digits n) \<Longrightarrow> 48 \<le> c \<and> c \<le> 57"
proof (induction n arbitrary: c rule: digits.induct)
  case (1 n)
  show ?case
  proof (cases "n < 10")
    case True
    with "1.prems" show ?thesis by (simp add: digits_small)
  next
    case False
    then have "digits n = digits (n div 10) @ [48 + n mod 10]"
      by (simp add: digits_big)
    with "1.prems" "1.IH" [OF False] show ?thesis
      by auto
  qed
qed

lemma digits_nonempty: "digits n \<noteq> []"
  by (subst digits.simps) simp

lemma pointBeforeLastTwo_shape:
  "pointBeforeLastTwo n = digits (n div 100) @ 46 # [48 + n div 10 mod 10, 48 + n mod 10]"
proof -
  consider "n < 10" | "10 \<le> n" "n < 100" | "100 \<le> n" by linarith
  then show ?thesis
  proof cases
    case 1
    then show ?thesis
      by (simp add: pointBeforeLastTwo_def digits_small asc_def)
  next
    case 2
    then have "digits n = [48 + n div 10, 48 + n mod 10]"
      by (simp add: digits_big digits_small)
    with 2 show ?thesis
      by (simp add: pointBeforeLastTwo_def digits_small asc_def)
  next
    case 3
    have "n div 10 div 10 = n div 100"
      by (simp add: div_mult2_eq [symmetric])
    with 3 have "digits n = digits (n div 100) @ [48 + n div 10 mod 10, 48 + n mod 10]"
      by (simp add: digits_big [of n] digits_big [of "n div 10"])
    moreover have "digits (n div 100) \<noteq> []" by (rule digits_nonempty)
    ultimately show ?thesis
      by (cases "digits (n div 100)") (simp_all add: pointBeforeLastTwo_def asc_def)
  qed
qed

lemma toFixed2_shape:
  assumes "\<bar>x\<bar> < 10 ^ 21"
  shows "toFixed2 big (Finite x) =
           (if x < 0 then [45] else []) @ pointBeforeLastTwo (nat \<lfloor>\<bar>x\<bar> * 100 + 1 / 2\<rfloor>)"
  using assms by (simp add: toFixed2_def Let_def asc_def)

lemma split_at_none: "sep \<notin> set q \<Longrightarrow> split_at sep q = [q]"
  by (induction q) auto

lemma split_at_once:
  "sep \<notin> set p \<Longrightarrow> sep \<notin> set q \<Longrightarrow> split_at sep (p @ sep # q) = [p, q]"
  by (induction p) (auto simp: split_at_none)

lemma parseInt_digit: "d < 10 \<Longrightarrow> parseInt (Some [48 + d]) = Some (int d)"
  by (simp add: parseInt_def isWhiteSpace_def digitValue_def Let_def)

lemma item_first: "item (d # ds) 0 = Some d"
  by (simp add: item_def)

lemma below_ten: "d < 10 \<Longrightarrow> d \<in> {0, 1, 2, 3, 4, 5, 6, 7, 8, 9::nat}"
  by auto

lemma CH_NUMS_digit:
  assumes "d < 10"
  shows "\<exists>g. CH_NUMS ! d = [g] \<and> (g = zero_glyph \<longleftrightarrow> d = 0) \<and> g \<noteq> yuan_glyph"
  using below_ten [OF assms]
  by (auto simp: CH_NUMS_def zero_glyph_def yuan_glyph_def)

lemma lookup_digit: "d < 10 \<Longrightarrow> lookup CH_NUMS (Some (int d)) = CH_NUMS ! d"
  by (simp add: lookup_def CH_NUMS_def)

lemma lookup_cases: "lookup tbl i = asc ''undefined'' \<or> lookup tbl i \<in> set tbl"
  by (auto simp: lookup_def split: option.splits)

text \<open>The loops never produce the yuan glyph, whatever the digits.\<close>

lemma no_yuan_in_tables:
  "yuan_glyph \<notin> set (lookup CH_NUMS i)"
  "yuan_glyph \<notin> set (lookup CH_UNITS i)"
  "yuan_glyph \<notin> set (lookup CH_GROUPS i)"
  using lookup_cases [of CH_NUMS i] lookup_cases [of CH_UNITS i] lookup_cases [of CH_GROUPS i]
  by (auto simp: CH_NUMS_def CH_UNITS_def CH_GROUPS_def yuan_glyph_def zero_glyph_def asc_def)

lemma chunkLoop_no_yuan:
  "yuan_glyph \<notin> set groupResult \<Longrightarrow>
   yuan_glyph \<notin> set (chunkLoop chunk j groupResult chunkZero)"
proof (induction chunk j groupResult chunkZero rule: chunkLoop.induct)
  case (1 chunk j groupResult chunkZero)
  show ?case
  proof (cases "j < length chunk")
    case False
    with "1.prems" show ?thesis by (simp add: chunkLoop_done)
  next
    case True
    show ?thesis
    proof (cases "parseInt (charAt chunk j) = Some 0")
      case zero: True
      with True "1.IH"(2) "1.prems" show ?thesis
        by (simp add: chunkLoop_step)
    next
      case nonzero: False
      let ?next = "(if chunkZero > 0 then groupResult @ lookup CH_NUMS (Some 0) else groupResult)
                 @ lookup CH_NUMS (parseInt (charAt chunk j))
                 @ lookup CH_UNITS (Some (int (length chunk) - 1 - int j))"
      have "yuan_glyph \<notin> set ?next"
        using "1.prems" by (simp add: no_yuan_in_tables)
      with True nonzero "1.IH"(1) show ?thesis
        by (simp add: chunkLoop_step Let_def)
    qed
  qed
qed

lemma groupLoop_no_yuan:
  "yuan_glyph \<notin> set result \<Longrightarrow>
   yuan_glyph \<notin> set (groupLoop intStr i result zeroCount groupIndex)"
proof (induction intStr i result zeroCount groupIndex rule: groupLoop.induct)
  case (1 intStr i result zeroCount groupIndex)
  show ?case
  proof (cases "i > 0")
    case False
    with "1.prems" show ?thesis by (simp add: groupLoop_done)
  next
    case True
    let ?chunk = "substring intStr (max 0 (i - 4)) i"
    show ?thesis
    proof (cases "parseInt (Some ?chunk) = Some 0")
      case zero: True
      with True "1.IH"(1) "1.prems" show ?thesis
        by (simp add: groupLoop_step Let_def)
    next
      case nonzero: False
      let ?r = "chunkLoop ?chunk 0 [] 0 @ lookup CH_GROUPS (Some (int groupIndex)) @ result"
      have r: "yuan_glyph \<notin> set ?r"
        using "1.prems" by (simp add: no_yuan_in_tables chunkLoop_no_yuan)
      show ?thesis
      proof (cases "zeroCount > 0")
        case bridge: True
        have "yuan_glyph \<notin> set (lookup CH_NUMS (Some 0) @ ?r)"
          using r by (simp add: no_yuan_in_tables)
        with True nonzero bridge
          "1.IH"(2) [OF True refl refl refl refl nonzero refl refl refl,
                     of "lookup CH_NUMS (Some 0) @ ?r" 0]
        show ?thesis
          by (simp add: groupLoop_step Let_def)
      next
        case nobridge: False
        with True nonzero r
          "1.IH"(2) [OF True refl refl refl refl nonzero refl refl refl, of ?r zeroCount]
        show ?thesis
          by (simp add: groupLoop_step Let_def)
      qed
    qed
  qed
qed

text \<open>The clean-up of a string with one yuan glyph, which splits it in two.\<close>

lemma collapseZeros_subset: "set (collapseZeros s) \<subseteq> set s"
  by (induction s rule: collapseZeros.induct) auto

lemma collapseZeros_id: "\<not> consecutiveZeros s \<Longrightarrow> collapseZeros s = s"
  by (induction s rule: collapseZeros.induct) auto

lemma collapseZeros_head:
  "y \<noteq> zero_glyph \<Longrightarrow> collapseZeros (y # b) = y # collapseZeros b"
  by (cases b) simp_all

lemma collapseZeros_separator:
  "y \<noteq> zero_glyph \<Longrightarrow> collapseZeros (a @ y # b) = collapseZeros a @ y # collapseZeros b"
proof (induction a rule: collapseZeros.induct)
  case (1 c d cs)
  then show ?case by simp
qed (simp_all add: collapseZeros_head)

lemma dropZeroBeforeYuan_id: "yuan_glyph \<notin> set s \<Longrightarrow> dropZeroBeforeYuan s = s"
  by (induction s rule: dropZeroBeforeYuan.induct) auto

lemma dropZeroBeforeYuan_head:
  "yuan_glyph \<notin> set b \<Longrightarrow> dropZeroBeforeYuan (yuan_glyph # b) = yuan_glyph # b"
  by (cases b) (simp_all add: dropZeroBeforeYuan_id yuan_glyph_def zero_glyph_def)

lemma dropZeroBeforeYuan_first:
  "yuan_glyph \<notin> set a \<Longrightarrow> yuan_glyph \<notin> set b \<Longrightarrow>
   dropZeroBeforeYuan (a @ yuan_glyph # b) =
     (if a \<noteq> [] \<and> last a = zero_glyph then butlast a else a) @ yuan_glyph # b"
proof (induction a rule: dropZeroBeforeYuan.induct)
  case (1 c d cs)
  then show ?case by simp
qed (auto simp: dropZeroBeforeYuan_head)

lemma cleanup_around_yuan:
  assumes "yuan_glyph \<notin> set R" "yuan_glyph \<notin> set D" "\<not> consecutiveZeros D"
  shows "\<exists>R'. yuan_glyph \<notin> set R' \<and> cleanup (R @ yuan_glyph # D) = R' @ yuan_glyph # D"
proof -
  have ne: "yuan_glyph \<noteq> zero_glyph"
    by (simp add: yuan_glyph_def zero_glyph_def)
  let ?r1 = "collapseZeros R"
  let ?r2 = "if ?r1 \<noteq> [] \<and> last ?r1 = zero_glyph then butlast ?r1 else ?r1"
  let ?r3 = "if ?r2 = [] then [zero_glyph] else ?r2"
  have r1: "yuan_glyph \<notin> set ?r1"
    using assms(1) collapseZeros_subset [of R] by blast
  then have r2: "yuan_glyph \<notin> set ?r2"
    by (auto dest: in_set_butlastD)
  with ne have r3: "yuan_glyph \<notin> set ?r3"
    by auto
  have "collapseZeros (R @ yuan_glyph # D) = ?r1 @ yuan_glyph # D"
    using ne assms(3) by (simp add: collapseZeros_separator collapseZeros_id)
  moreover have "dropZeroBeforeYuan (?r1 @ yuan_glyph # D) = ?r2 @ yuan_glyph # D"
    using r1 assms(2) by (rule dropZeroBeforeYuan_first)
  moreover have "zeroBeforeLeadingYuan (?r2 @ yuan_glyph # D) = ?r3 @ yuan_glyph # D"
    using r2 by (cases ?r2) auto
  ultimately have "cleanup (R @ yuan_glyph # D) = ?r3 @ yuan_glyph # D"
    by (simp only: cleanup_def)
  with r3 show ?thesis by blast
qed

lemma spec_decimal_part_plain:
  assumes "j < 10" "f < 10"
  shows "yuan_glyph \<notin> set (spec_decimal_part j f) \<and> \<not> consecutiveZeros (spec_decimal_part j f)"
proof -
  obtain gj where gj: "CH_NUMS ! j = [gj]" "gj = zero_glyph \<longleftrightarrow> j = 0" "gj \<noteq> yuan_glyph"
    using CH_NUMS_digit [OF assms(1)] by blast
  obtain gf where gf: "CH_NUMS ! f = [gf]" "gf = zero_glyph \<longleftrightarrow> f = 0" "gf \<noteq> yuan_glyph"
    using CH_NUMS_digit [OF assms(2)] by blast
  show ?thesis
    using gj gf
    by (auto simp: spec_decimal_part_def yuan_glyph_def zero_glyph_def whole_glyph_def
        jiao_glyph_def fen_glyph_def)
qed

text \<open>The branches of the source on jiao and fen, against the specification's wording.\<close>

lemma decimal_branch:
  assumes "j < 10" "f < 10"
  shows "(if Some (int j) = Some 0 \<and> Some (int f) = Some 0 then result @ [whole_glyph]
          else
            (if num_gt (Some (int f)) 0
             then (if num_gt (Some (int j)) 0
                   then result @ lookup CH_NUMS (Some (int j)) @ [jiao_glyph]
                   else if Some (int j) = Some 0 \<and> num_gt (Some (int f)) 0
                   then result @ lookup CH_NUMS (Some 0)
                   else result)
                  @ lookup CH_NUMS (Some (int f)) @ [fen_glyph]
             else (if num_gt (Some (int j)) 0
                   then result @ lookup CH_NUMS (Some (int j)) @ [jiao_glyph]
                   else if Some (int j) = Some 0 \<and> num_gt (Some (int f)) 0
                   then result @ lookup CH_NUMS (Some 0)
                   else result)))
         = result @ spec_decimal_part j f"
  using assms lookup_digit [of j] lookup_digit [of f] lookup_digit [of 0]
  by (auto simp: spec_decimal_part_def num_gt_def Let_def CH_NUMS_def)

lemma numberToChinese_fixed:
  assumes "parsed rt amount = Finite x" "\<bar>x\<bar> < 10 ^ 21"
  shows "\<exists>R. yuan_glyph \<notin> set R \<and>
           numberToChinese rt amount =
             Inr (cleanup (R @ yuan_glyph # spec_decimal_part (jiaoDigit x) (fenDigit x)))"
proof -
  let ?n = "hundredths x"
  let ?j = "jiaoDigit x" and ?f = "fenDigit x"
  let ?sign = "if x < 0 then [45] else []"
  let ?intStr = "?sign @ digits (?n div 100)"
  let ?G = "groupLoop ?intStr (int (length ?intStr)) [] 0 0"
  let ?R = "if ?G = [] then lookup CH_NUMS (Some 0) else ?G"
  have jf: "?j < 10" "?f < 10"
    by (simp_all add: jiaoDigit_def fenDigit_def)
  have str: "toFixed2 (numberToString rt) (Finite x) = ?intStr @ 46 # [48 + ?j, 48 + ?f]"
    using toFixed2_shape [OF assms(2)]
    by (simp add: pointBeforeLastTwo_shape hundredths_def jiaoDigit_def fenDigit_def)
  have nodot: "46 \<notin> set ?intStr"
    using digits_range [of 46 "?n div 100"] by auto
  have nodot': "46 \<notin> set [48 + ?j, 48 + ?f]"
    by simp
  have parts:
    "split_at 46 (toFixed2 (numberToString rt) (Finite x)) = [?intStr, [48 + ?j, 48 + ?f]]"
    unfolding str using split_at_once [OF nodot nodot'] .
  have jiao: "parseInt (charAt [48 + ?j, 48 + ?f] 0) = Some (int ?j)"
    and fen: "parseInt (charAt [48 + ?j, 48 + ?f] 1) = Some (int ?f)"
    using jf by (simp_all add: charAt_def item_def parseInt_digit)
  have R: "yuan_glyph \<notin> set ?R"
    using groupLoop_no_yuan [of "[]" ?intStr] by (simp add: no_yuan_in_tables)
  have "numberToChinese rt amount = Inr (cleanup (?R @ yuan_glyph # spec_decimal_part ?j ?f))"
    unfolding numberToChinese_def Let_def assms(1) parts
    by (simp only: jsnum.distinct if_False list.case item_first option.case jiao fen
        decimal_branch [OF jf]) simp
  with R show ?thesis by blast
qed

text \<open>
  Below \<open>10^21\<close> in magnitude, where \<open>toFixed(2)\<close> writes fixed notation, the result of
  \<open>numberToChinese\<close> is an integer rendering without a yuan glyph, the yuan glyph, and
  then the decimal part exactly as the specification words it, from the two digits jiao
  and fen.
\<close>

lemma numberToChinese_decimal_part_below_1e21:
  assumes "parsed rt amount = Finite x" "\<bar>x\<bar> < 10 ^ 21"
  shows "\<exists>integerText. yuan_glyph \<notin> set integerText \<and>
           numberToChinese rt amount =
             Inr (integerText @ [yuan_glyph] @ spec_decimal_part (jiaoDigit x) (fenDigit x))"
proof -
  obtain R where R: "yuan_glyph \<notin> set R"
    "numberToChinese rt amount =
       Inr (cleanup (R @ yuan_glyph # spec_decimal_part (jiaoDigit x) (fenDigit x)))"
    using numberToChinese_fixed [OF assms] by blast
  have "jiaoDigit x < 10" "fenDigit x < 10"
    by (simp_all add: jiaoDigit_def fenDigit_def)
  from cleanup_around_yuan [OF R(1)] spec_decimal_part_plain [OF this] R(2)
  show ?thesis
    by fastforce
qed

lemma numberToChinese_zero:
  "numberToChinese rt (ANum (Finite 0)) = Inr [zero_glyph, yuan_glyph, whole_glyph]"
  by (simp add: js_eval ch_eval)

text \<open>
  Claim C7, at the amounts \<open>1e21\<close> and \<open>1.5e21\<close>. Both have jiao 0 and fen 0, so the
  claim's decimal part is the whole glyph. From \<open>10^21\<close> on \<open>toFixed(2)\<close> returns the
  exponent form. \<open>1e+21\<close> has no point: \<open>decStr\<close> is \<open>undefined\<close> and
  \<open>numberToChinese\<close> throws. \<open>1.5e+21\<close> is split at its point into \<open>1\<close> and \<open>5e+21\<close>:
  the result is U+58F9 U+5713 U+4F0D U+89D2, one yuan and five jiao.
\<close>

theorem numberToChinese_from_1e21:
  "numberToChinese sample_runtime (ANum (Finite (10 ^ 21))) = Inl TypeError
   \<and> numberToChinese sample_runtime (ANum (Finite (15 * 10 ^ 20)))
       = Inr [0x58F9, 0x5713, 0x4F0D, 0x89D2]
   \<and> spec_decimal_part (jiaoDigit (10 ^ 21)) (fenDigit (10 ^ 21)) = [0x6574]
   \<and> spec_decimal_part (jiaoDigit (15 * 10 ^ 20)) (fenDigit (15 * 10 ^ 20)) = [0x6574]"
proof -
  have a: "numberToChinese sample_runtime (ANum (Finite (10 ^ 21))) = Inl TypeError"
    by (simp add: numberToChinese_def toFixed2_def sample_runtime_def Let_def)
       (simp add: asc_def item_def)
  have b: "numberToChinese sample_runtime (ANum (Finite (15 * 10 ^ 20)))
             = Inr [0x58F9, 0x5713, 0x4F0D, 0x89D2]"
    by (simp add: numberToChinese_def toFixed2_def sample_runtime_def)
       (simp add: js_eval ch_eval)
  have c: "spec_decimal_part (jiaoDigit (10 ^ 21)) (fenDigit (10 ^ 21)) = [0x6574]"
    "spec_decimal_part (jiaoDigit (15 * 10 ^ 20)) (fenDigit (15 * 10 ^ 20)) = [0x6574]"
    by (simp_all add: spec_decimal_part_def jiaoDigit_def fenDigit_def hundredths_def
        floor_rat_numeral whole_glyph_def)
  from a b c show ?thesis by simp
qed

section \<open>Resolution of variable, currency and name fields\<close>

lemma getProperty_own: "printValues k = Some v \<Longrightarrow> getProperty rt printValues k = Some (Str v)"
  by (simp add: getProperty_def)

lemma getProperty_absent:
  "printValues k = None \<Longrightarrow> \<not> inherited rt k \<Longrightarrow> getProperty rt printValues k = None"
  by (simp add: getProperty_def)

lemma getProperty_inherited:
  "printValues k = None \<Longrightarrow> inherited rt k \<Longrightarrow> getProperty rt printValues k = Some (Obj k)"
  by (simp add: getProperty_def)

lemma constructor_inherited: "inherited sample_runtime (asc ''constructor'')"
  by (simp add: sample_runtime_def prototypeNames_def asc_def)

lemma amount_not_inherited: "\<not> inherited sample_runtime (asc ''amount'')"
  by (simp add: sample_runtime_def prototypeNames_def asc_def)

lemmas resolve_eval =
  resolvedText_def resolveObject_def effectiveValue_def getProperty_def orElse_def Let_def
  asc_def sample_field_def

text \<open>
  Claim C1 as stated fails where the key is bound to the empty string: the field then
  shows its raw value, not the placeholder. The second statement of the \<open>VARIABLE\<close>
  case, guarded by \<open>printValues[key] !== undefined\<close>, overrides the placeholder with the
  effective value, which is the raw value when the bound value is empty. It also fails at
  the unbound key \<open>constructor\<close>, which \<open>Object.prototype\<close> answers: the text becomes
  the function \<open>Object\<close>.
\<close>

theorem variable_field_bound_to_empty_string:
  "resolvedText sample_runtime [asc ''amount'' \<mapsto> []] (sample_field VARIABLE)
     = Some (Str (asc ''Text''))
   \<and> resolvedText sample_runtime [asc ''amount'' \<mapsto> []] (sample_field VARIABLE)
       \<noteq> Some (Str (asc ''{{amount}}''))
   \<and> resolvedText sample_runtime printValues_none (constructor_field VARIABLE)
       = Some (Obj (asc ''constructor''))
   \<and> resolvedText sample_runtime printValues_none (constructor_field VARIABLE)
       \<noteq> Some (Str (asc ''{{constructor}}''))"
proof -
  have empty: "resolvedText sample_runtime [asc ''amount'' \<mapsto> []] (sample_field VARIABLE)
                 = Some (Str (asc ''Text''))"
    by (simp add: resolve_eval)
  have look: "getProperty sample_runtime printValues_none (asc ''constructor'')
                = Some (Obj (asc ''constructor''))"
    using constructor_inherited by (simp add: getProperty_def printValues_none_def)
  have "asc ''constructor'' \<noteq> []"
    by (simp add: asc_def)
  then have proto: "resolvedText sample_runtime printValues_none (constructor_field VARIABLE)
                 = Some (Obj (asc ''constructor''))"
    by (simp add: resolvedText_def resolveObject_def effectiveValue_def Let_def look
        constructor_field_def sample_field_def)
  from empty proto show ?thesis
    by (simp add: asc_def)
qed

text \<open>
  Claim C1, amended. For a text field of kind \<open>VARIABLE\<close>: when its key is set and bound
  to a value that is not empty, the resolved text is that value; when the key is set,
  absent from the bindings and not a name that \<open>Object.prototype\<close> answers, it is the
  placeholder made of the key; when the key is unset or the empty string, it is the
  placeholder made of \<open>var\<close>; and when the key is bound to the empty string, it is the raw
  value (the empty string when there is none). So removing a binding brings the
  placeholder back. Nothing is said of an unbound key that \<open>Object.prototype\<close> answers.
\<close>

theorem variable_field_resolution:
  "objType obj = TextObject \<and> logicType obj = Some VARIABLE \<Longrightarrow>
     (variableKey obj = Some k \<and> k \<noteq> [] \<and> printValues k = Some v \<and> v \<noteq> [] \<longrightarrow>
        resolvedText rt printValues obj = Some (Str v))
     \<and> (variableKey obj = Some k \<and> k \<noteq> [] \<and> printValues k = None \<and> \<not> inherited rt k \<longrightarrow>
        resolvedText rt printValues obj = Some (Str (asc ''{{'' @ k @ asc ''}}'')))
     \<and> (variableKey obj = None \<or> variableKey obj = Some [] \<longrightarrow>
        resolvedText rt printValues obj = Some (Str (asc ''{{var}}'')))
     \<and> (variableKey obj = Some k \<and> k \<noteq> [] \<and> printValues k = Some [] \<longrightarrow>
        resolvedText rt printValues obj
          = Some (Str (case rawValue obj of None \<Rightarrow> [] | Some r \<Rightarrow> r)))"
  by (auto simp: resolvedText_def resolveObject_def effectiveValue_def getProperty_def
      orElse_def Let_def asc_def split: option.splits)

text \<open>
  The sample field with the key \<open>amount\<close>: bound to \<open>Bob\<close> it shows \<open>Bob\<close>, and once the
  binding is removed it shows the placeholder again.
\<close>

theorem variable_field_bound_then_removed:
  "objType (sample_field VARIABLE) = TextObject
   \<and> logicType (sample_field VARIABLE) = Some VARIABLE
   \<and> \<not> inherited sample_runtime (asc ''amount'')
   \<and> resolvedText sample_runtime [asc ''amount'' \<mapsto> asc ''Bob''] (sample_field VARIABLE)
       = Some (Str (asc ''Bob''))
   \<and> resolvedText sample_runtime ([asc ''amount'' \<mapsto> asc ''Bob''](asc ''amount'' := None))
       (sample_field VARIABLE) = Some (Str (asc ''{{amount}}''))"
proof -
  have kind: "objType (sample_field VARIABLE) = TextObject
              \<and> logicType (sample_field VARIABLE) = Some VARIABLE"
    and key: "variableKey (sample_field VARIABLE) = Some (asc ''amount'')"
    by (simp_all add: sample_field_def)
  have filled: "asc ''amount'' \<noteq> [] \<and> asc ''Bob'' \<noteq> []"
    by (simp add: asc_def)
  from variable_field_resolution
         [OF kind, of "asc ''amount''" "[asc ''amount'' \<mapsto> asc ''Bob'']" "asc ''Bob''"
            sample_runtime]
       key filled
  have bound: "resolvedText sample_runtime [asc ''amount'' \<mapsto> asc ''Bob'']
                 (sample_field VARIABLE) = Some (Str (asc ''Bob''))"
    by simp
  from variable_field_resolution
         [OF kind, of "asc ''amount''"
            "[asc ''amount'' \<mapsto> asc ''Bob''](asc ''amount'' := None)" "[]" sample_runtime]
       key filled amount_not_inherited
  have removed: "resolvedText sample_runtime
                   ([asc ''amount'' \<mapsto> asc ''Bob''](asc ''amount'' := None))
                   (sample_field VARIABLE)
                 = Some (Str (asc ''{{'' @ asc ''amount'' @ asc ''}}''))"
    by simp
  from kind bound removed amount_not_inherited show ?thesis
    by (simp add: asc_def)
qed

text \<open>
  Where no key that only \<open>Object.prototype\<close> answers is involved, the effective value of
  the source is the one of the specification, and each of the four kinds applies its
  converter to it.
\<close>

lemma effectiveValue_spec:
  assumes "\<And>k. variableKey obj = Some k \<Longrightarrow> printValues k = None \<Longrightarrow> \<not> inherited rt k"
  shows "effectiveValue rt printValues obj = Str (spec_effective printValues obj)"
proof (cases "variableKey obj")
  case None
  then show ?thesis
    by (simp add: effectiveValue_def spec_effective_def orElse_def split: option.splits)
next
  case (Some k)
  show ?thesis
  proof (cases "printValues k")
    case None
    with Some assms have "getProperty rt printValues k = None"
      by (simp add: getProperty_absent)
    with Some None show ?thesis
      by (simp add: effectiveValue_def spec_effective_def orElse_def split: option.splits)
  next
    case (Some v)
    then have "getProperty rt printValues k = Some (Str v)"
      by (rule getProperty_own)
    with \<open>variableKey obj = Some k\<close> Some show ?thesis
      by (simp add: effectiveValue_def spec_effective_def orElse_def split: option.splits)
  qed
qed

lemma currency_and_name_fields_of_own_keys:
  assumes "objType obj = TextObject"
    and "\<And>k. variableKey obj = Some k \<Longrightarrow> printValues k = None \<Longrightarrow> \<not> inherited rt k"
  shows "logicType obj = Some CURRENCY_ENG \<Longrightarrow>
           resolvedText rt printValues obj
             = Some (Str (numberToEnglish rt (AStr (spec_effective printValues obj))))"
    and "logicType obj = Some CURRENCY_CHI \<Longrightarrow>
           resolvedText rt printValues obj
             = (case numberToChinese rt (AStr (spec_effective printValues obj)) of
                  Inl e \<Rightarrow> None | Inr t \<Rightarrow> Some (Str t))"
    and "logicType obj = Some CURRENCY_NUM \<Longrightarrow>
           resolvedText rt printValues obj
             = Some (Str (formatCurrency rt (AStr (spec_effective printValues obj))))"
    and "logicType obj = Some CUSTOMER_NAME \<Longrightarrow>
           resolvedText rt printValues obj = Some (Str (spec_effective printValues obj))"
  using assms(1) effectiveValue_spec [of obj printValues rt, OF assms(2)]
  by (auto simp: resolvedText_def resolveObject_def Let_def split: sum.splits)

text \<open>
  Claim C5, at a field whose key is \<open>constructor\<close>, with no print values at all. The key
  is not bound, so the claim's effective value is the raw value \<open>Text\<close>. The source tests
  \<open>printValues[key] !== undefined\<close>, which \<open>Object.prototype\<close> answers with the function
  \<open>Object\<close>: that function is taken as the effective value. The bound name then has the
  function as its text, the numeral kind has the text of the function, and the English
  kind, whose parse of that text fails, has \<open>Zero Dollars Only\<close>.
\<close>

theorem unbound_constructor_key:
  "printValues_none (asc ''constructor'') = None
   \<and> effectiveValue sample_runtime printValues_none (constructor_field CUSTOMER_NAME)
       = Obj (asc ''constructor'')
   \<and> spec_effective printValues_none (constructor_field CUSTOMER_NAME) = asc ''Text''
   \<and> resolvedText sample_runtime printValues_none (constructor_field CUSTOMER_NAME)
       = Some (Obj (asc ''constructor''))
   \<and> resolvedText sample_runtime printValues_none (constructor_field CURRENCY_NUM)
       = Some (Str (asc ''function Object() { [native code] }''))
   \<and> resolvedText sample_runtime printValues_none (constructor_field CURRENCY_ENG)
       = Some (Str (asc ''Zero Dollars Only''))"
proof -
  have key: "variableKey (constructor_field kind) = Some (asc ''constructor'')"
    and raw: "rawValue (constructor_field kind) = Some (asc ''Text'')"
    and kind: "objType (constructor_field kind) = TextObject"
              "logicType (constructor_field kind) = Some kind"
    and shown: "objText (constructor_field kind) = Some (Str (asc ''{{amount}}''))" for kind
    by (simp_all add: constructor_field_def sample_field_def)
  have look: "getProperty sample_runtime printValues_none (asc ''constructor'')
                = Some (Obj (asc ''constructor''))"
    using constructor_inherited by (simp add: getProperty_def printValues_none_def)
  have nonempty: "asc ''constructor'' \<noteq> []"
    by (simp add: asc_def)
  have eff: "effectiveValue sample_runtime printValues_none (constructor_field kind)
               = Obj (asc ''constructor'')" for kind
    by (simp add: effectiveValue_def key look nonempty)
  have spec: "spec_effective printValues_none (constructor_field CUSTOMER_NAME) = asc ''Text''"
    by (simp add: spec_effective_def key raw printValues_none_def)
  have otext: "objectText sample_runtime (asc ''constructor'')
                 = asc ''function Object() { [native code] }''"
    by (simp add: sample_runtime_def asc_def)
  have unparsed: "parseFloat sample_runtime (asc ''function Object() { [native code] }'') = NaN"
    by (simp add: sample_runtime_def asc_def)
  have name: "resolvedText sample_runtime printValues_none (constructor_field CUSTOMER_NAME)
                = Some (Obj (asc ''constructor''))"
    by (simp add: resolvedText_def resolveObject_def Let_def kind eff shown)
  have num: "resolvedText sample_runtime printValues_none (constructor_field CURRENCY_NUM)
               = Some (Str (asc ''function Object() { [native code] }''))"
    by (simp add: resolvedText_def resolveObject_def Let_def kind eff shown formatCurrency_def
        otext unparsed)
  have eng: "resolvedText sample_runtime printValues_none (constructor_field CURRENCY_ENG)
               = Some (Str (asc ''Zero Dollars Only''))"
    by (simp add: resolvedText_def resolveObject_def Let_def kind eff shown numberToEnglish_def
        otext unparsed)
  have none: "printValues_none (asc ''constructor'') = None"
    by (simp add: printValues_none_def)
  from none eff [of CUSTOMER_NAME] spec name num eng show ?thesis
    by simp
qed

section \<open>The history\<close>

























text \<open>
  Claim C9. None of the three operations fails on a missing reference: deleting an id
  that no object of the collection has returns a state whose collection is the same;
  an undo at index 0 returns the state unchanged; and a redo at the last index returns
  the state unchanged.
\<close>

theorem missing_references_change_nothing:
  "(objects s = Some objs \<and> target \<notin> objId ` set objs \<longrightarrow>
      (\<exists>s'. handleDeleteObject target s = Inr s' \<and> objects s' = Some objs))
   \<and> (historyIndex s = 0 \<longrightarrow> handleUndo s = s)
   \<and> (historyIndex s = int (length (history s)) - 1 \<longrightarrow> handleRedo s = s)"
proof (intro conjI impI)
  assume a: "objects s = Some objs \<and> target \<notin> objId ` set objs"
  then have "filter (\<lambda>ob. objId ob \<noteq> target) objs = objs"
    by (auto simp: filter_id_conv)
  with a show "\<exists>s'. handleDeleteObject target s = Inr s' \<and> objects s' = Some objs"
    by (simp add: handleDeleteObject_def updateObjects_def saveToHistory_def Let_def)
next
  assume "historyIndex s = 0"
  then show "handleUndo s = s" by (simp add: handleUndo_def)
next
  assume "historyIndex s = int (length (history s)) - 1"
  then show "handleRedo s = s" by (simp add: handleRedo_def)
qed

text \<open>
  An editor that has just loaded the one sample field: deleting the id \<open>f2\<close>, which it
  does not hold, keeps the field; undo and redo return the same state.
\<close>

theorem missing_references_on_loaded_editor:
  "objects (loaded [sample_field STATIC]) = Some [sample_field STATIC]
   \<and> asc ''f2'' \<notin> objId ` set [sample_field STATIC]
   \<and> historyIndex (loaded [sample_field STATIC]) = 0
   \<and> historyIndex (loaded [sample_field STATIC])
       = int (length (history (loaded [sample_field STATIC]))) - 1
   \<and> (\<exists>s'. handleDeleteObject (asc ''f2'') (loaded [sample_field STATIC]) = Inr s'
            \<and> objects s' = Some [sample_field STATIC])
   \<and> handleUndo (loaded [sample_field STATIC]) = loaded [sample_field STATIC]
   \<and> handleRedo (loaded [sample_field STATIC]) = loaded [sample_field STATIC]"
proof -
  have a: "objects (loaded [sample_field STATIC]) = Some [sample_field STATIC]
           \<and> asc ''f2'' \<notin> objId ` set [sample_field STATIC]"
    by (simp add: loaded_def sample_field_def asc_def)
  have b: "historyIndex (loaded [sample_field STATIC]) = 0"
    and c: "historyIndex (loaded [sample_field STATIC])
              = int (length (history (loaded [sample_field STATIC]))) - 1"
    by (simp_all add: loaded_def)
  from missing_references_change_nothing
         [of "loaded [sample_field STATIC]" "[sample_field STATIC]" "asc ''f2''"] a b c
  show ?thesis
    by blast
qed

end
